theory Spec2Isabelle
  imports Complex_Main
begin

section \<open>Data model of the group-wise aggregator\<close>

text \<open>
  The embedding follows \<^verbatim>\<open>aggregators/GroupWise.py\<close>. Tensor entries are modelled as
  real numbers, so rounding, overflow and NaN are outside the model. A module is seen only
  through \<^verbatim>\<open>named_parameters()\<close> and \<^verbatim>\<open>param.data.view(-1)\<close>: a list of named
  parameter blocks, each already flattened. A dictionary of client models keeps its
  insertion order, which is the order \<^verbatim>\<open>models.items()\<close> iterates in.
\<close>

datatype py_error = TypeError | KeyError | IndexError | RuntimeError | ZeroDivisionError

type_synonym tensor = "real list"

type_synonym module = "(string \<times> tensor) list"

type_synonym models_dict = "(int \<times> module) list"

text \<open>Of a client (and of the round's \<^verbatim>\<open>FakeClient\<close>) only \<^verbatim>\<open>p\<close> and \<^verbatim>\<open>id\<close> are read.\<close>

record client =
  p :: real
  cid :: int

text \<open>
  The aggregation strategies and \<^verbatim>\<open>Aggregator._mergeModels\<close> live outside the
  sources at hand; they are parameters of the model. \<^verbatim>\<open>aggregate(clients, models)\<close>
  returns a module or raises; \<^verbatim>\<open>_mergeModels(mOrig, mDest, alphaOrig, alphaDest)\<close>
  updates \<^verbatim>\<open>mDest\<close> in place, modelled as returning the updated destination.
\<close>

type_synonym aggregator = "client list \<Rightarrow> module list \<Rightarrow> py_error + module"

type_synonym merger = "module \<Rightarrow> module \<Rightarrow> real \<Rightarrow> real \<Rightarrow> module"

type_synonym addr = nat

text \<open>
  The centroid tensor is mutated in place and shared between \<^verbatim>\<open>self.cluster_centres\<close>
  and the local \<^verbatim>\<open>old_centres\<close>, so it lives in a store and both names hold its
  address.
\<close>

record gw_state =
  clients :: "client list"
  model :: module
  cluster_count :: nat
  cluster_centres :: "addr option"
  cluster_choices :: "int list"
  store :: "addr \<Rightarrow> tensor"
  next_addr :: addr

definition gw_init :: "client list \<Rightarrow> module \<Rightarrow> gw_state" where
  "gw_init cs m =
     \<lparr>clients = cs, model = m, cluster_count = 3, cluster_centres = None,
      cluster_choices = replicate (length cs) 0, store = (\<lambda>_. []), next_addr = 0\<rparr>"

text \<open>Subscripting a list: a negative index counts from the end, anything outside raises.\<close>

definition py_index :: "'a list \<Rightarrow> int \<Rightarrow> py_error + 'a" where
  "py_index xs i =
     (if 0 \<le> i \<and> i < int (length xs) then Inr (xs ! nat i)
      else if i < 0 \<and> - int (length xs) \<le> i then Inr (xs ! nat (int (length xs) + i))
      else Inl IndexError)"

text \<open>Subscripting the dictionary of client models; a missing key raises.\<close>

definition py_getitem :: "models_dict \<Rightarrow> int \<Rightarrow> py_error + module" where
  "py_getitem d k = (case map_of d k of Some mdl \<Rightarrow> Inr mdl | None \<Rightarrow> Inl KeyError)"

section \<open>Flattening: \<^verbatim>\<open>_generate_weights\<close>\<close>

fun cat_params :: "tensor \<Rightarrow> module \<Rightarrow> tensor" where
  "cat_params coords [] = coords"
| "cat_params coords ((name, param) # rest) = cat_params (coords @ param) rest"

fun cat_models :: "tensor \<Rightarrow> models_dict \<Rightarrow> tensor" where
  "cat_models X [] = X"
| "cat_models X ((k, mdl) # rest) = cat_models (X @ cat_params [] mdl) rest"

definition generate_weights :: "models_dict \<Rightarrow> tensor" where
  "generate_weights models = cat_models [] models"

section \<open>Cosine similarity\<close>

text \<open>
  \<^verbatim>\<open>cos = nn.CosineSimilarity(0)\<close> is the library's similarity along dimension 0 with
  its default \<^verbatim>\<open>eps = 1e-8\<close>: the dot product divided by the product of the norms,
  that product clamped below at \<^verbatim>\<open>eps\<close>. A zero-dimensional tensor (one element of a
  one-dimensional tensor) is treated as a tensor with that single entry.
\<close>

definition eps :: real where
  "eps = 1 / 10 ^ 8"

definition dot :: "tensor \<Rightarrow> tensor \<Rightarrow> real" where
  "dot xs ys = sum_list (map2 (*) xs ys)"

definition norm2 :: "tensor \<Rightarrow> real" where
  "norm2 xs = sqrt (dot xs xs)"

definition cos_sim :: "tensor \<Rightarrow> tensor \<Rightarrow> real" where
  "cos_sim xs ys = dot xs ys / max (norm2 xs * norm2 ys) eps"

definition cos0 :: "real \<Rightarrow> real \<Rightarrow> real" where
  "cos0 x y = cos_sim [x] [y]"

section \<open>Centroids: \<^verbatim>\<open>_gen_cluster_centre\<close> and \<^verbatim>\<open>_init_cluster_centres\<close>\<close>

fun select_clients :: "client list \<Rightarrow> int list \<Rightarrow> py_error + client list" where
  "select_clients cs [] = Inr []"
| "select_clients cs (i # rest) =
     (case py_index cs i of
        Inl e \<Rightarrow> Inl e
      | Inr c \<Rightarrow> (case select_clients cs rest of Inl e \<Rightarrow> Inl e | Inr sel \<Rightarrow> Inr (c # sel)))"

fun select_models :: "models_dict \<Rightarrow> int list \<Rightarrow> py_error + module list" where
  "select_models models [] = Inr []"
| "select_models models (i # rest) =
     (case py_getitem models (i + 1) of
        Inl e \<Rightarrow> Inl e
      | Inr m \<Rightarrow> (case select_models models rest of Inl e \<Rightarrow> Inl e | Inr sel \<Rightarrow> Inr (m # sel)))"

definition gen_cluster_centre ::
  "aggregator \<Rightarrow> client list \<Rightarrow> int list \<Rightarrow> models_dict \<Rightarrow> py_error + real" where
  "gen_cluster_centre internal cs indices models =
     (case select_clients cs indices of
        Inl e \<Rightarrow> Inl e
      | Inr sel_clients \<Rightarrow>
          (case select_models models indices of
             Inl e \<Rightarrow> Inl e
           | Inr sel_models \<Rightarrow>
               (case internal sel_clients sel_models of
                  Inl e \<Rightarrow> Inl e
                | Inr mdl \<Rightarrow> py_index (generate_weights [(0, mdl)]) 0)))"

definition member_indices :: "int list \<Rightarrow> nat \<Rightarrow> int list" where
  "member_indices choices choice = [val \<leftarrow> choices. val = int choice]"

text \<open>
  The \<^verbatim>\<open>else\<close> branch of \<^verbatim>\<open>_init_cluster_centres\<close>: for every cluster index the
  centroid entry is overwritten in place, in the tensor at address \<open>a\<close>.
\<close>

fun update_centres ::
  "aggregator \<Rightarrow> models_dict \<Rightarrow> addr \<Rightarrow> nat list \<Rightarrow> gw_state \<Rightarrow> py_error + gw_state" where
  "update_centres internal models a [] s = Inr s"
| "update_centres internal models a (choice # rest) s =
     (let indices = member_indices (cluster_choices s) choice in
      case gen_cluster_centre internal (clients s) indices models of
        Inl e \<Rightarrow> Inl e
      | Inr v \<Rightarrow>
          if choice < length (store s a)
          then update_centres internal models a rest
                 (s\<lparr>store := (store s)(a := (store s a)[choice := v])\<rparr>)
          else Inl IndexError)"

text \<open>
  \<^verbatim>\<open>torch.randint(high=len(models_weights), size=(self.cluster_count,))\<close> draws every
  index on its own. The random source is the explicit parameter \<open>rnd\<close>: draw \<open>j\<close> is
  \<open>rnd j mod high\<close>, so every outcome of the library call is the image of some \<open>rnd\<close>.
\<close>

definition randint :: "(nat \<Rightarrow> nat) \<Rightarrow> nat \<Rightarrow> nat \<Rightarrow> py_error + nat list" where
  "randint rnd high n =
     (if high = 0 then Inl RuntimeError else Inr (map (\<lambda>j. rnd j mod high) [0..<n]))"

definition init_cluster_centres ::
  "aggregator \<Rightarrow> (nat \<Rightarrow> nat) \<Rightarrow> tensor \<Rightarrow> models_dict \<Rightarrow> gw_state \<Rightarrow> py_error + gw_state" where
  "init_cluster_centres internal rnd models_weights models s =
     (case cluster_centres s of
        None \<Rightarrow>
          (case randint rnd (length models_weights) (cluster_count s) of
             Inl e \<Rightarrow> Inl e
           | Inr indices \<Rightarrow>
               Inr (s\<lparr>cluster_centres := Some (next_addr s),
                      store := (store s)(next_addr s := map (\<lambda>i. models_weights ! i) indices),
                      next_addr := Suc (next_addr s)\<rparr>))
      | Some a \<Rightarrow> update_centres internal models a [0..<cluster_count s] s)"

section \<open>The clustering loop\<close>

text \<open>
  The inner loop of the assignment step, over \<^verbatim>\<open>enumerate(self.cluster_centres)\<close>, with
  the running pair \<^verbatim>\<open>(best_sim, choice)\<close>.
\<close>

fun best_choice :: "real \<Rightarrow> (nat \<times> real) list \<Rightarrow> real \<times> int \<Rightarrow> real \<times> int" where
  "best_choice mdl [] acc = acc"
| "best_choice mdl ((j, cluster) # rest) (best_sim, choice) =
     (let sim = cos0 mdl cluster in
      if sim > best_sim then best_choice mdl rest (sim, int j)
      else best_choice mdl rest (best_sim, choice))"

fun assign_choices :: "(nat \<times> real) list \<Rightarrow> tensor \<Rightarrow> int list \<Rightarrow> py_error + int list" where
  "assign_choices [] centres choices = Inr choices"
| "assign_choices ((i, mdl) # rest) centres choices =
     (let choice = snd (best_choice mdl (enumerate 0 centres) (0, - 1)) in
      if i < length choices then assign_choices rest centres (choices[i := choice])
      else Inl IndexError)"

text \<open>
  The call \<^verbatim>\<open>self._init_cluster_centres(models_weights)\<close> that ends the loop body
  leaves out the required argument \<^verbatim>\<open>models\<close>: binding the arguments raises
  \<^verbatim>\<open>TypeError\<close> before the callee runs.
\<close>

definition init_cluster_centres_without_models :: "tensor \<Rightarrow> gw_state \<Rightarrow> py_error + gw_state" where
  "init_cluster_centres_without_models models_weights s = Inl TypeError"

definition loop_body :: "tensor \<Rightarrow> addr \<Rightarrow> gw_state \<Rightarrow> py_error + gw_state" where
  "loop_body models_weights a s =
     (case assign_choices (enumerate 0 models_weights) (store s a) (cluster_choices s) of
        Inl e \<Rightarrow> Inl e
      | Inr choices \<Rightarrow>
          init_cluster_centres_without_models models_weights (s\<lparr>cluster_choices := choices\<rparr>))"

text \<open>
  The \<^verbatim>\<open>while\<close> loop, with \<open>old_centres\<close> the address held by the local of that name.
  The fuel counts entries into the body; \<open>None\<close> is fuel used up.
\<close>

fun cluster_loop :: "nat \<Rightarrow> tensor \<Rightarrow> addr \<Rightarrow> gw_state \<Rightarrow> (py_error + gw_state) option" where
  "cluster_loop fuel models_weights old_centres s =
     (case cluster_centres s of
        None \<Rightarrow> Some (Inl TypeError)
      | Some a \<Rightarrow>
          if cos_sim (store s old_centres) (store s a) < 99 / 100
          then (case fuel of
                  0 \<Rightarrow> None
                | Suc k \<Rightarrow>
                    (case loop_body models_weights a s of
                       Inl e \<Rightarrow> Some (Inl e)
                     | Inr s' \<Rightarrow> cluster_loop k models_weights a s'))
          else Some (Inr s))"

definition clustering ::
  "nat \<Rightarrow> aggregator \<Rightarrow> (nat \<Rightarrow> nat) \<Rightarrow> models_dict \<Rightarrow> gw_state \<Rightarrow> (py_error + gw_state) option" where
  "clustering fuel internal rnd models s =
     (let models_weights = generate_weights models in
      case init_cluster_centres internal rnd models_weights models s of
        Inl e \<Rightarrow> Some (Inl e)
      | Inr s1 \<Rightarrow>
          (case cluster_centres s1 of
             None \<Rightarrow> Some (Inl TypeError)
           | Some old_centres \<Rightarrow> cluster_loop fuel models_weights old_centres s1))"

section \<open>One round of \<^verbatim>\<open>trainAndTest\<close>\<close>

text \<open>
  The loop \<^verbatim>\<open>for i in indices\<close> that merges into \<^verbatim>\<open>empty_model\<close>, with the running
  value of \<^verbatim>\<open>comb\<close>.
\<close>

fun merge_members ::
  "merger \<Rightarrow> models_dict \<Rightarrow> client list \<Rightarrow> int list \<Rightarrow> real \<Rightarrow> module \<Rightarrow> py_error + module" where
  "merge_members mergeModels models cs [] comb empty_model = Inr empty_model"
| "merge_members mergeModels models cs (i # rest) comb empty_model =
     (case py_getitem models (i + 1) of
        Inl e \<Rightarrow> Inl e
      | Inr m \<Rightarrow>
          (case py_index cs i of
             Inl e \<Rightarrow> Inl e
           | Inr c \<Rightarrow>
               merge_members mergeModels models cs rest 1 (mergeModels m empty_model (p c) comb)))"

text \<open>
  The loop \<^verbatim>\<open>for choice in range(self.cluster_count)\<close>, with the two lists it appends
  to: \<^verbatim>\<open>cluster_model_count\<close> and \<^verbatim>\<open>cluster_models\<close>.
\<close>

fun build_clusters ::
  "merger \<Rightarrow> models_dict \<Rightarrow> gw_state \<Rightarrow> nat list \<Rightarrow> nat list \<times> module list \<Rightarrow>
   py_error + nat list \<times> module list" where
  "build_clusters mergeModels models s [] acc = Inr acc"
| "build_clusters mergeModels models s (choice # rest) (cluster_model_count, cluster_models) =
     (let indices = member_indices (cluster_choices s) choice in
      case merge_members mergeModels models (clients s) indices 0 (model s) of
        Inl e \<Rightarrow> Inl e
      | Inr empty_model \<Rightarrow>
          build_clusters mergeModels models s rest
            (cluster_model_count @ [length indices], cluster_models @ [empty_model]))"

text \<open>
  \<^verbatim>\<open>[FakeClient(val/len(self.clients), i) for (i, val) in enumerate(cluster_model_count)]\<close>;
  the division raises when there is no client.
\<close>

fun fake_clients :: "nat \<Rightarrow> (nat \<times> nat) list \<Rightarrow> py_error + client list" where
  "fake_clients n [] = Inr []"
| "fake_clients n ((i, val) # rest) =
     (if n = 0 then Inl ZeroDivisionError
      else (case fake_clients n rest of
              Inl e \<Rightarrow> Inl e
            | Inr fcs \<Rightarrow> Inr (\<lparr>p = real val / real n, cid = int i\<rparr> # fcs)))"

text \<open>The two arguments handed to \<^verbatim>\<open>self.externalAggregator.aggregate\<close>.\<close>

definition external_input ::
  "merger \<Rightarrow> models_dict \<Rightarrow> gw_state \<Rightarrow> py_error + client list \<times> module list" where
  "external_input mergeModels models s =
     (case build_clusters mergeModels models s [0..<cluster_count s] ([], []) of
        Inl e \<Rightarrow> Inl e
      | Inr (cluster_model_count, cluster_models) \<Rightarrow>
          (case fake_clients (length (clients s)) (enumerate 0 cluster_model_count) of
             Inl e \<Rightarrow> Inl e
           | Inr fcs \<Rightarrow> Inr (fcs, cluster_models)))"

definition aggregate_clusters ::
  "aggregator \<Rightarrow> merger \<Rightarrow> models_dict \<Rightarrow> gw_state \<Rightarrow> py_error + gw_state" where
  "aggregate_clusters external mergeModels models s =
     (case external_input mergeModels models s of
        Inl e \<Rightarrow> Inl e
      | Inr (fcs, cluster_models) \<Rightarrow>
          (case external fcs cluster_models of
             Inl e \<Rightarrow> Inl e
           | Inr m \<Rightarrow> Inr (s\<lparr>model := m\<rparr>)))"



section \<open>Reading the state, and sample strategies for evaluation\<close>

text \<open>The value of \<^verbatim>\<open>self.cluster_centres\<close>: the tensor its address points to.\<close>

definition centres_of :: "gw_state \<Rightarrow> tensor option" where
  "centres_of s = (case cluster_centres s of None \<Rightarrow> None | Some a \<Rightarrow> Some (store s a))"

text \<open>
  Two concrete stand-ins for the parameters, used only to evaluate the model at concrete
  inputs: a strategy that returns the first model it is given (and a fixed module on empty
  input), and a merger that writes \<open>alphaOrig * orig + alphaDest * dest\<close> into every
  parameter block.
\<close>

definition first_model_strategy :: "module \<Rightarrow> aggregator" where
  "first_model_strategy fallback cs ms = (case ms of [] \<Rightarrow> Inr fallback | m # rest \<Rightarrow> Inr m)"

definition weighted_merge :: merger where
  "weighted_merge mOrig mDest alphaOrig alphaDest =
     map2 (\<lambda>orig dest. (fst orig, map2 (\<lambda>x y. alphaOrig * x + alphaDest * y) (snd orig) (snd dest)))
       mOrig mDest"

text \<open>
  Two clients with ids 1 and 2, and the state of their aggregator once a first round has
  allocated the centroid tensor: the constructor's state with the tensor \<open>c\<close> at
  address 0.
\<close>

definition two_clients :: "client list" where
  "two_clients = [\<lparr>p = 1 / 2, cid = 1\<rparr>, \<lparr>p = 1 / 2, cid = 2\<rparr>]"

definition after_first_round :: "module \<Rightarrow> tensor \<Rightarrow> gw_state" where
  "after_first_round g c =
     (gw_init two_clients g)\<lparr>cluster_centres := Some 0, store := (\<lambda>_. [])(0 := c), next_addr := 1\<rparr>"

section \<open>The flattened weight tensor\<close>

lemma cat_params_eq: "cat_params coords mdl = coords @ concat (map snd mdl)"
  by (induction coords mdl rule: cat_params.induct) simp_all

lemma cat_models_eq:
  "cat_models X ms = X @ concat (map (\<lambda>(k, mdl). cat_params [] mdl) ms)"
  by (induction X ms rule: cat_models.induct) simp_all

lemma length_concat_same:
  "list_all (\<lambda>xs. length xs = m) xss \<Longrightarrow> length (concat xss) = length xss * m"
  by (induction xss) simp_all

lemma nth_concat_same:
  "list_all (\<lambda>xs. length xs = m) xss \<Longrightarrow> i < length xss * m \<Longrightarrow>
   concat xss ! i = (xss ! (i div m)) ! (i mod m)"
proof (induction xss arbitrary: i)
  case Nil
  then show ?case by simp
next
  case (Cons xs xss)
  then have len: "length xs = m" and rest: "list_all (\<lambda>xs. length xs = m) xss"
    by simp_all
  from Cons.prems have mpos: "0 < m" by (cases m) simp_all
  show ?case
  proof (cases "i < m")
    case True
    then show ?thesis using len by (simp add: nth_append)
  next
    case False
    then have ge: "m \<le> i" by simp
    with Cons.prems have "i - m < length xss * m" by simp
    from Cons.IH [OF rest this]
    have "concat xss ! (i - m) = (xss ! ((i - m) div m)) ! ((i - m) mod m)" .
    moreover have "(i - m) mod m = i mod m" using ge by (simp add: le_mod_geq)
    moreover have "i div m = Suc ((i - m) div m)" using ge mpos by (simp add: le_div_geq)
    ultimately show ?thesis using False len by (simp add: nth_append)
  qed
qed

text \<open>
  Claim C9. \<^verbatim>\<open>_generate_weights\<close> on a dictionary of \<open>n\<close> models with \<open>m\<close> parameter
  elements each returns one flat tensor of length \<open>n * m\<close>, the concatenation of the
  models' flattened parameters in dictionary order, with no boundary between models:
  position \<open>i\<close> holds one scalar, element \<open>i mod m\<close> of model number \<open>i div m\<close>.
\<close>

theorem generate_weights_flat:
  assumes "list_all (\<lambda>(k, mdl). length (cat_params [] mdl) = m) models"
  shows "generate_weights models = concat (map (\<lambda>(k, mdl). cat_params [] mdl) models)
    \<and> length (generate_weights models) = length models * m
    \<and> (\<forall>i < length models * m.
          generate_weights models ! i = cat_params [] (snd (models ! (i div m))) ! (i mod m))"
proof -
  let ?xss = "map (\<lambda>(k, mdl). cat_params [] mdl) models"
  have eq: "generate_weights models = concat ?xss"
    by (simp add: generate_weights_def cat_models_eq)
  have all: "list_all (\<lambda>xs. length xs = m) ?xss"
    using assms by (induction models) auto
  have len: "length (concat ?xss) = length models * m"
    using length_concat_same [OF all] by simp
  have nth: "concat ?xss ! i = cat_params [] (snd (models ! (i div m))) ! (i mod m)"
    if "i < length models * m" for i
  proof -
    from that have "0 < m" by (cases m) simp_all
    with that have "i div m < length models"
      by (simp add: less_mult_imp_div_less)
    then have "?xss ! (i div m) = cat_params [] (snd (models ! (i div m)))"
      by (simp add: case_prod_beta)
    moreover have "concat ?xss ! i = (?xss ! (i div m)) ! (i mod m)"
      using nth_concat_same [OF all] that by simp
    ultimately show ?thesis by simp
  qed
  show ?thesis using eq len nth by simp
qed

theorem generate_weights_flat_witness:
  "list_all (\<lambda>(k, mdl). length (cat_params [] mdl) = 3)
     [(1, [(''w'', [1, 2]), (''b'', [3])]), (2, [(''w'', [4, 5]), (''b'', [6])])]
   \<and> generate_weights [(1, [(''w'', [1, 2]), (''b'', [3])]), (2, [(''w'', [4, 5]), (''b'', [6])])]
       = [1, 2, 3, 4, 5, 6]
   \<and> length (generate_weights
        [(1, [(''w'', [1, 2]), (''b'', [3])]), (2, [(''w'', [4, 5]), (''b'', [6])])]) = 2 * 3
   \<and> generate_weights [(1, [(''w'', [1, 2]), (''b'', [3])]), (2, [(''w'', [4, 5]), (''b'', [6])])] ! 4
       = cat_params [] [(''w'', [4, 5]), (''b'', [6])] ! 1"
  using generate_weights_flat
    [of 3 "[(1, [(''w'', [1, 2]), (''b'', [3])]), (2, [(''w'', [4, 5]), (''b'', [6])])]"]
  by simp

section \<open>Member lists\<close>






section \<open>Evaluation at concrete inputs\<close>

declare cluster_loop.simps [simp del]

lemma upt_3: "[0..<3] = [0, 1, 2]"
  by (simp add: upt_rec)

lemmas ev = cos0_def cos_sim_def dot_def norm2_def eps_def gw_init_def generate_weights_def
  init_cluster_centres_def randint_def centres_of_def eval_nat_numeral
  two_clients_def after_first_round_def first_model_strategy_def weighted_merge_def
  gen_cluster_centre_def member_indices_def py_index_def py_getitem_def

lemmas ev3 = gw_init_def generate_weights_def init_cluster_centres_def randint_def centres_of_def
  two_clients_def first_model_strategy_def upt_3

section \<open>Frame of the centroid initialisation\<close>

lemma update_centres_frame:
  "update_centres internal models a chs s = Inr s' \<Longrightarrow>
   clients s' = clients s \<and> model s' = model s \<and> cluster_count s' = cluster_count s
   \<and> cluster_centres s' = cluster_centres s \<and> cluster_choices s' = cluster_choices s
   \<and> next_addr s' = next_addr s \<and> length (store s' a) = length (store s a)"
proof (induction chs arbitrary: s)
  case Nil
  then show ?case by simp
next
  case (Cons choice rest)
  from Cons.prems obtain v where
    v: "gen_cluster_centre internal (clients s) (member_indices (cluster_choices s) choice) models = Inr v"
    and lt: "choice < length (store s a)"
    and rec: "update_centres internal models a rest
                (s\<lparr>store := (store s)(a := (store s a)[choice := v])\<rparr>) = Inr s'"
    by (auto simp: Let_def split: sum.splits if_splits)
  from Cons.IH [OF rec] show ?case by simp
qed

lemma update_centres_values:
  "update_centres internal models a chs s = Inr s' \<Longrightarrow> distinct chs \<Longrightarrow>
   (\<forall>c \<in> set chs. c < length (store s a) \<and>
      gen_cluster_centre internal (clients s) (member_indices (cluster_choices s) c) models
        = Inr (store s' a ! c))
   \<and> (\<forall>c. c \<notin> set chs \<longrightarrow> store s' a ! c = store s a ! c)"
proof (induction chs arbitrary: s)
  case Nil
  then show ?case by simp
next
  case (Cons choice rest)
  from Cons.prems(1) obtain v where
    v: "gen_cluster_centre internal (clients s) (member_indices (cluster_choices s) choice) models = Inr v"
    and lt: "choice < length (store s a)"
    and rec: "update_centres internal models a rest
                (s\<lparr>store := (store s)(a := (store s a)[choice := v])\<rparr>) = Inr s'"
    by (auto simp: Let_def split: sum.splits if_splits)
  let ?s2 = "s\<lparr>store := (store s)(a := (store s a)[choice := v])\<rparr>"
  from Cons.prems(2) have d: "distinct rest" and notin: "choice \<notin> set rest" by simp_all
  from Cons.IH [OF rec d] have
    ih1: "\<forall>c \<in> set rest. c < length (store ?s2 a) \<and>
      gen_cluster_centre internal (clients ?s2) (member_indices (cluster_choices ?s2) c) models
        = Inr (store s' a ! c)"
    and ih2: "\<forall>c. c \<notin> set rest \<longrightarrow> store s' a ! c = store ?s2 a ! c"
    by blast+
  from ih2 notin have "store s' a ! choice = store ?s2 a ! choice" by blast
  with lt have here: "store s' a ! choice = v" by simp
  have others: "store s' a ! c = store s a ! c" if "c \<notin> set (choice # rest)" for c
    using ih2 that by simp
  show ?case using ih1 v lt here others by simp
qed

lemma init_cluster_centres_frame:
  assumes "init_cluster_centres internal rnd models_weights models s = Inr s1"
  shows "clients s1 = clients s \<and> model s1 = model s \<and> cluster_count s1 = cluster_count s
    \<and> cluster_choices s1 = cluster_choices s \<and> cluster_centres s1 \<noteq> None"
proof (cases "cluster_centres s")
  case None
  with assms show ?thesis
    by (auto simp: init_cluster_centres_def split: sum.splits)
next
  case (Some a)
  with assms have "update_centres internal models a [0..<cluster_count s] s = Inr s1"
    by (simp add: init_cluster_centres_def)
  from update_centres_frame [OF this] Some show ?thesis by simp
qed

section \<open>The convergence loop\<close>

lemma loop_body_raises: "\<exists>e. loop_body models_weights a s = Inl e"
  by (simp add: loop_body_def init_cluster_centres_without_models_def split: sum.splits)

lemma loop_body_not_Inr: "loop_body models_weights a s \<noteq> Inr s'"
  using loop_body_raises [of models_weights a s] by auto

lemma cluster_loop_total: "\<exists>r. cluster_loop (Suc k) models_weights old s = Some r"
  by (subst cluster_loop.simps) (simp add: loop_body_not_Inr split: option.splits sum.splits)

lemma cluster_loop_fuel:
  "cluster_loop (Suc k) models_weights old s = cluster_loop (Suc 0) models_weights old s"
  by (subst (1 2) cluster_loop.simps) (simp add: loop_body_not_Inr split: option.splits sum.splits)



lemma cos_sim_self:
  assumes "eps \<le> dot c c"
  shows "cos_sim c c = 1"
proof -
  have pos: "0 < dot c c" using assms by (simp add: eps_def) 
  then have "norm2 c * norm2 c = dot c c" by (simp add: norm2_def)
  then show ?thesis using assms pos by (simp add: cos_sim_def max_def)
qed

lemma clustering_fuel:
  "clustering (Suc k) internal rnd models s = clustering (Suc 0) internal rnd models s"
  by (simp add: clustering_def Let_def cluster_loop_fuel [of k] split: sum.splits option.splits)

text \<open>
  Claim C2, evaluated where the code departs from it. The \<^verbatim>\<open>while\<close> loop has no
  iteration cap. One client whose only weight is 0 gives the centroids \<open>[0, 0, 0]\<close>,
  whose similarity with themselves is 0, so the body is entered (no fuel is not enough).
  The assignment step writes \<open>-1\<close>, and the call
  \<^verbatim>\<open>self._init_cluster_centres(models_weights)\<close> that ends the body raises
  \<^verbatim>\<open>TypeError\<close>: with a cap of 1 as with a cap of 100 the call to \<^verbatim>\<open>clustering\<close>
  ends in that error, not in a normal return that keeps the last assignment.
\<close>

theorem clustering_raises_when_loop_entered:
  "clustering 0 (first_model_strategy []) (\<lambda>j. 0) [(1, [(''w'', [0])])]
     (gw_init [\<lparr>p = 1, cid = 1\<rparr>] [(''w'', [0])]) = None
   \<and> clustering 1 (first_model_strategy []) (\<lambda>j. 0) [(1, [(''w'', [0])])]
     (gw_init [\<lparr>p = 1, cid = 1\<rparr>] [(''w'', [0])]) = Some (Inl TypeError)
   \<and> clustering 100 (first_model_strategy []) (\<lambda>j. 0) [(1, [(''w'', [0])])]
     (gw_init [\<lparr>p = 1, cid = 1\<rparr>] [(''w'', [0])]) = Some (Inl TypeError)
   \<and> assign_choices (enumerate 0 (generate_weights [(1, [(''w'', [0])])])) [0, 0, 0]
        (cluster_choices (gw_init [\<lparr>p = 1, cid = 1\<rparr>] [(''w'', [0])])) = Inr [- 1]"
proof -
  let ?c = "\<lambda>n. clustering n (first_model_strategy []) (\<lambda>j. 0) [(1, [(''w'', [0])])]
     (gw_init [\<lparr>p = 1, cid = 1\<rparr>] [(''w'', [0])])"
  have z: "?c 0 = None"
    by (simp add: ev clustering_def cluster_loop.simps)
  have o: "?c (Suc 0) = Some (Inl TypeError)"
    by (simp add: ev clustering_def cluster_loop.simps loop_body_def
        init_cluster_centres_without_models_def)
  have "(100::nat) = Suc 99" by simp
  then have h: "?c 100 = ?c (Suc 0)" using clustering_fuel [of 99] by simp
  have a: "assign_choices (enumerate 0 (generate_weights [(1, [(''w'', [0])])])) [0, 0, 0]
        (cluster_choices (gw_init [\<lparr>p = 1, cid = 1\<rparr>] [(''w'', [0])])) = Inr [- 1]"
    by (simp add: ev)
  show ?thesis using z o h a by simp
qed

text \<open>
  Claim C8, as amended. When the centroid tensor that \<^verbatim>\<open>_init_cluster_centres\<close> leaves
  has squared norm at least \<^verbatim>\<open>eps = 1e-8\<close> (so the clamp of the similarity is not
  active), the loop condition compares the tensor with itself through the alias
  \<^verbatim>\<open>old_centres\<close>, the similarity is 1, the body runs zero times, and the call
  returns with \<^verbatim>\<open>cluster_choices\<close> as it was before the call.
\<close>

theorem clustering_skips_loop:
  assumes "init_cluster_centres internal rnd (generate_weights models) models s = Inr s1"
    and "centres_of s1 = Some c"
    and "eps \<le> dot c c"
  shows "clustering 0 internal rnd models s = Some (Inr s1)
    \<and> clustering fuel internal rnd models s = Some (Inr s1)
    \<and> cluster_choices s1 = cluster_choices s"
proof -
  from assms(2) obtain a where a: "cluster_centres s1 = Some a" and c: "store s1 a = c"
    by (auto simp: centres_of_def split: option.splits)
  have "\<not> cos_sim (store s1 a) (store s1 a) < 99 / 100"
    using cos_sim_self [OF assms(3)] c by simp
  then have "cluster_loop n (generate_weights models) a s1 = Some (Inr s1)" for n
    using a by (subst cluster_loop.simps) simp
  then show ?thesis
    using assms(1) a init_cluster_centres_frame [OF assms(1)] by (simp add: clustering_def)
qed

theorem clustering_skips_loop_witness:
  "(case init_cluster_centres (first_model_strategy []) (\<lambda>j. 0) (generate_weights [(1, [(''w'', [1])])])
           [(1, [(''w'', [1])])] (gw_init [\<lparr>p = 1, cid = 1\<rparr>] [(''w'', [0])]) of
      Inl e \<Rightarrow> False
    | Inr s1 \<Rightarrow>
        centres_of s1 = Some [1, 1, 1] \<and> eps \<le> dot [1, 1, 1] [1, 1, 1]
        \<and> clustering 0 (first_model_strategy []) (\<lambda>j. 0) [(1, [(''w'', [1])])]
             (gw_init [\<lparr>p = 1, cid = 1\<rparr>] [(''w'', [0])]) = Some (Inr s1)
        \<and> cluster_choices s1 = [0])"
proof -
  let ?S = "gw_init [\<lparr>p = 1, cid = 1\<rparr>] [(''w'', [0])]"
  let ?M = "[(1, [(''w'', [1])])] :: models_dict"
  obtain s1 where i: "init_cluster_centres (first_model_strategy []) (\<lambda>j. 0) (generate_weights ?M) ?M ?S = Inr s1"
    and c: "centres_of s1 = Some [1, 1, 1]"
    by (simp add: ev)
  have e: "eps \<le> dot [1, 1, 1] [1, 1, 1]" by (simp add: ev)
  have ch: "cluster_choices ?S = [0]" by (simp add: ev)
  from clustering_skips_loop [OF i c e, of 0] i c e ch show ?thesis by simp
qed

text \<open>
  The claim as stated, for every centroid tensor of nonzero norm, fails: with the single
  weight \<^verbatim>\<open>1e-9\<close> the centroid tensor has nonzero norm, its similarity with
  itself is clamped to \<^verbatim>\<open>3e-10\<close>, the body is entered (no fuel is not enough)
  and the call raises.
\<close>

theorem clustering_tiny_centres_counterexample:
  "clustering 0 (first_model_strategy []) (\<lambda>j. 0) [(1, [(''w'', [1 / 10 ^ 9])])]
     (gw_init [\<lparr>p = 1, cid = 1\<rparr>] [(''w'', [0])]) = None
   \<and> clustering 1 (first_model_strategy []) (\<lambda>j. 0) [(1, [(''w'', [1 / 10 ^ 9])])]
     (gw_init [\<lparr>p = 1, cid = 1\<rparr>] [(''w'', [0])]) = Some (Inl TypeError)
   \<and> (case init_cluster_centres (first_model_strategy []) (\<lambda>j. 0)
            (generate_weights [(1, [(''w'', [1 / 10 ^ 9])])]) [(1, [(''w'', [1 / 10 ^ 9])])]
            (gw_init [\<lparr>p = 1, cid = 1\<rparr>] [(''w'', [0])]) of
        Inl e \<Rightarrow> False
      | Inr s1 \<Rightarrow> centres_of s1 = Some [1 / 10 ^ 9, 1 / 10 ^ 9, 1 / 10 ^ 9])
   \<and> norm2 [1 / 10 ^ 9, 1 / 10 ^ 9, 1 / 10 ^ 9] \<noteq> 0"
  apply (intro conjI)
     apply (simp add: ev clustering_def cluster_loop.simps)
    apply (simp add: ev clustering_def cluster_loop.simps loop_body_def init_cluster_centres_without_models_def)
   apply (simp add: ev)
  apply (simp add: ev)
  done

text \<open>
  Claim C3, evaluated where the code departs from it. A second round starts from the
  centroids \<open>[1, 1, 1]\<close>; the update overwrites them in place with \<open>[-1, -1, -1]\<close>.
  Every per-index similarity of old against new centroid is \<open>-1\<close>, below 0.99, so the
  claim has the loop repeat. The code compares the updated tensor with itself and returns
  without entering the body once.
\<close>

theorem convergence_test_ignores_old_centres:
  "centres_of (after_first_round [(''w'', [- 1])] [1, 1, 1]) = Some [1, 1, 1]
   \<and> (case clustering 0 (first_model_strategy [(''w'', [- 1])]) (\<lambda>j. 0)
             [(1, [(''w'', [- 1])]), (2, [(''w'', [- 1])])] (after_first_round [(''w'', [- 1])] [1, 1, 1]) of
        Some (Inr s') \<Rightarrow> centres_of s' = Some [- 1, - 1, - 1] \<and> cluster_choices s' = [0, 0]
      | _ \<Rightarrow> False)
   \<and> cos0 1 (- 1) = - 1 \<and> cos0 1 (- 1) < 99 / 100"
  by (simp add: ev clustering_def cluster_loop.simps)

text \<open>
  Claim C1, evaluated where the code departs from it. The assignment step starts from
  \<^verbatim>\<open>best_sim = 0\<close> and \<^verbatim>\<open>choice = -1\<close>; a client whose similarity to every centroid
  is at most 0 keeps \<open>-1\<close>, which is no cluster index in \<open>[0, K)\<close>.
\<close>

theorem assignment_yields_minus_one:
  "snd (best_choice (- 1) (enumerate 0 [1, 1, 1]) (0, - 1)) = - 1
   \<and> assign_choices (enumerate 0 [1, - 1]) [1, 1, 1] [0, 0] = Inr [0, - 1]
   \<and> assign_choices (enumerate 0 [0]) [0, 0, 0] [0] = Inr [- 1]"
  by (simp add: ev)

section \<open>Centroid update and initialisation\<close>

text \<open>
  Claim C4, as amended. In the update step every cluster index below
  \<^verbatim>\<open>cluster_count\<close>, with or without members, has its centroid recomputed instead of
  retained: whenever the step returns, the centroid entry of each cluster is the value
  \<^verbatim>\<open>_gen_cluster_centre\<close> computed for the cluster's member list, and for a cluster
  without members the internal strategy was called on empty lists and returned a model.
\<close>

theorem update_overwrites_every_centroid:
  assumes "cluster_centres s = Some a"
    and "init_cluster_centres internal rnd models_weights models s = Inr s'"
    and "choice < cluster_count s"
  shows "cluster_centres s' = Some a
    \<and> gen_cluster_centre internal (clients s) (member_indices (cluster_choices s) choice) models
        = Inr (store s' a ! choice)
    \<and> (member_indices (cluster_choices s) choice = [] \<longrightarrow>
         (\<exists>mdl. internal [] [] = Inr mdl)
         \<and> gen_cluster_centre internal (clients s) [] models = Inr (store s' a ! choice))"
proof -
  from assms(1,2) have u: "update_centres internal models a [0..<cluster_count s] s = Inr s'"
    by (simp add: init_cluster_centres_def)
  from update_centres_frame [OF u] assms(1) have c: "cluster_centres s' = Some a" by simp
  from update_centres_values [OF u] assms(3)
  have g: "gen_cluster_centre internal (clients s) (member_indices (cluster_choices s) choice) models
        = Inr (store s' a ! choice)" by simp
  have "(\<exists>mdl. internal [] [] = Inr mdl)
      \<and> gen_cluster_centre internal (clients s) [] models = Inr (store s' a ! choice)"
    if "member_indices (cluster_choices s) choice = []"
    using g that by (auto simp: gen_cluster_centre_def split: sum.splits)
  with c g show ?thesis by blast
qed

theorem update_overwrites_every_centroid_witness:
  "cluster_centres (after_first_round [(''w'', [7])] [1, 2, 3]) = Some 0
   \<and> (1::nat) < cluster_count (after_first_round [(''w'', [7])] [1, 2, 3])
   \<and> member_indices (cluster_choices (after_first_round [(''w'', [7])] [1, 2, 3])) 1 = []
   \<and> first_model_strategy [(''w'', [7])] [] [] = Inr [(''w'', [7])]
   \<and> (case init_cluster_centres (first_model_strategy [(''w'', [7])]) (\<lambda>j. 0) [5, 6]
             [(1, [(''w'', [5])]), (2, [(''w'', [6])])] (after_first_round [(''w'', [7])] [1, 2, 3]) of
        Inl e \<Rightarrow> False
      | Inr s' \<Rightarrow> cluster_centres s' = Some 0 \<and> Inr 7 = (Inr (store s' 0 ! 1) :: py_error + real))"
proof -
  let ?S = "after_first_round [(''w'', [7])] [1, 2, 3]"
  let ?I = "first_model_strategy [(''w'', [7])]"
  let ?M = "[(1, [(''w'', [5])]), (2, [(''w'', [6])])] :: models_dict"
  have a: "cluster_centres ?S = Some 0" by (simp add: ev)
  have k: "(1::nat) < cluster_count ?S" by (simp add: ev)
  have e: "member_indices (cluster_choices ?S) 1 = []" by (simp add: ev)
  have f: "?I [] [] = Inr [(''w'', [7])]" by (simp add: first_model_strategy_def)
  obtain s' where i: "init_cluster_centres ?I (\<lambda>j. 0) [5, 6] ?M ?S = Inr s'"
    by (simp add: ev)
  have g: "gen_cluster_centre ?I (clients ?S) (member_indices (cluster_choices ?S) 1) ?M = Inr 7"
    by (simp add: ev)
  from update_overwrites_every_centroid [OF a i k] g a k e f i show ?thesis by simp
qed

text \<open>
  The claim as stated fails: cluster 1 has no member and its centroid entry changes from
  2 to 7, computed from the model the internal strategy returns on empty input.
\<close>

theorem empty_cluster_centroid_counterexample:
  "member_indices (cluster_choices (after_first_round [(''w'', [7])] [1, 2, 3])) 1 = []
   \<and> centres_of (after_first_round [(''w'', [7])] [1, 2, 3]) = Some [1, 2, 3]
   \<and> (case init_cluster_centres (first_model_strategy [(''w'', [7])]) (\<lambda>j. 0) [5, 6]
             [(1, [(''w'', [5])]), (2, [(''w'', [6])])] (after_first_round [(''w'', [7])] [1, 2, 3]) of
        Inl e \<Rightarrow> False
      | Inr s' \<Rightarrow> centres_of s' = Some [5, 7, 7])"
  by (simp add: ev)

text \<open>
  Claim C7, as amended. When no centroids exist and the flattened weight tensor is not
  empty, the initial centroid tensor holds \<^verbatim>\<open>cluster_count\<close> entries of that tensor,
  at indices drawn one by one from \<open>[0, len)\<close>; nothing keeps two draws apart.
\<close>

theorem first_init_draws_with_replacement:
  assumes "cluster_centres s = None" and "models_weights \<noteq> []"
  shows "\<exists>s'. init_cluster_centres internal rnd models_weights models s = Inr s'
    \<and> centres_of s' =
        Some (map (\<lambda>j. models_weights ! (rnd j mod length models_weights)) [0..<cluster_count s])
    \<and> cluster_choices s' = cluster_choices s"
  using assms by (simp add: init_cluster_centres_def randint_def centres_of_def comp_def)

theorem first_init_draws_with_replacement_witness:
  "cluster_centres (gw_init two_clients []) = None
   \<and> generate_weights [(1, [(''w'', [1, 2, 3])]), (2, [(''w'', [4, 5, 6])])] \<noteq> []
   \<and> (case init_cluster_centres (first_model_strategy []) (\<lambda>j. 2 * j)
             (generate_weights [(1, [(''w'', [1, 2, 3])]), (2, [(''w'', [4, 5, 6])])])
             [(1, [(''w'', [1, 2, 3])]), (2, [(''w'', [4, 5, 6])])] (gw_init two_clients []) of
        Inl e \<Rightarrow> False
      | Inr s' \<Rightarrow> centres_of s' = Some [1, 3, 5])"
proof -
  let ?S = "gw_init two_clients []"
  let ?M = "[(1, [(''w'', [1, 2, 3])]), (2, [(''w'', [4, 5, 6])])] :: models_dict"
  have n: "cluster_centres ?S = None" by (simp add: ev3)
  have w: "generate_weights ?M \<noteq> []" by (simp add: ev3)
  from first_init_draws_with_replacement [OF n w, of "first_model_strategy []" "\<lambda>j. 2 * j" ?M]
  obtain s' where i: "init_cluster_centres (first_model_strategy []) (\<lambda>j. 2 * j) (generate_weights ?M) ?M ?S = Inr s'"
    and c: "centres_of s' = Some (map (\<lambda>j. generate_weights ?M ! ((2 * j) mod length (generate_weights ?M)))
              [0..<cluster_count ?S])"
    by blast
  have "map (\<lambda>j. generate_weights ?M ! ((2 * j) mod length (generate_weights ?M))) [0..<cluster_count ?S]
      = [1, 3, 5]"
    by (simp add: ev3)
  with n w i c show ?thesis by simp
qed

text \<open>
  The claim as stated fails: the draw \<open>(0, 0, 0)\<close> is an outcome of
  \<^verbatim>\<open>torch.randint\<close>, and it gives three equal centroids.
\<close>

theorem initial_centres_repeat_counterexample:
  "(case init_cluster_centres (first_model_strategy []) (\<lambda>j. 0)
             (generate_weights [(1, [(''w'', [1, 2, 3])]), (2, [(''w'', [4, 5, 6])])])
             [(1, [(''w'', [1, 2, 3])]), (2, [(''w'', [4, 5, 6])])] (gw_init two_clients []) of
        Inl e \<Rightarrow> False
      | Inr s' \<Rightarrow> centres_of s' = Some [1, 1, 1])
   \<and> \<not> distinct [1, 1, 1 :: real]"
  by (simp add: ev3)

section \<open>The external aggregation of a round\<close>

lemma build_clusters_spec:
  "build_clusters mergeModels models s chs (cnt, cms) = Inr (cnt', cms') \<Longrightarrow>
   cnt' = cnt @ map (\<lambda>c. length (member_indices (cluster_choices s) c)) chs
   \<and> length cms' = length cms + length chs
   \<and> (\<forall>k < length cms. cms' ! k = cms ! k)
   \<and> (\<forall>k < length chs.
         merge_members mergeModels models (clients s) (member_indices (cluster_choices s) (chs ! k)) 0
           (model s) = Inr (cms' ! (length cms + k)))"
proof (induction chs arbitrary: cnt cms)
  case Nil
  then show ?case by simp
next
  case (Cons choice rest)
  let ?ix = "member_indices (cluster_choices s) choice"
  from Cons.prems obtain em where
    m: "merge_members mergeModels models (clients s) ?ix 0 (model s) = Inr em"
    and rec: "build_clusters mergeModels models s rest (cnt @ [length ?ix], cms @ [em]) = Inr (cnt', cms')"
    by (auto simp: Let_def split: sum.splits)
  from Cons.IH [OF rec] have
    c: "cnt' = (cnt @ [length ?ix]) @ map (\<lambda>c. length (member_indices (cluster_choices s) c)) rest"
    and l: "length cms' = length (cms @ [em]) + length rest"
    and old: "\<forall>k < length (cms @ [em]). cms' ! k = (cms @ [em]) ! k"
    and new: "\<forall>k < length rest.
         merge_members mergeModels models (clients s) (member_indices (cluster_choices s) (rest ! k)) 0
           (model s) = Inr (cms' ! (length (cms @ [em]) + k))"
    by blast+
  have keep: "cms' ! k = cms ! k" if "k < length cms" for k
    using old that by (simp add: nth_append)
  have here: "cms' ! length cms = em"
    using old by (simp add: nth_append)
  have all: "merge_members mergeModels models (clients s)
           (member_indices (cluster_choices s) ((choice # rest) ! k)) 0 (model s)
         = Inr (cms' ! (length cms + k))" if "k < length (choice # rest)" for k
  proof (cases k)
    case 0
    then show ?thesis using m here by simp
  next
    case (Suc j)
    with that have "j < length rest" by simp
    with new Suc show ?thesis by simp
  qed
  show ?case using c l keep all by simp
qed

lemma fake_clients_spec:
  "fake_clients n ivs = Inr fcs \<Longrightarrow>
   fcs = map (\<lambda>(i, val). \<lparr>p = real val / real n, cid = int i\<rparr>) ivs"
  by (induction n ivs arbitrary: fcs rule: fake_clients.induct)
    (auto split: if_splits sum.splits)


lemma external_input_spec:
  assumes "external_input mergeModels models s = Inr (fcs, cms)"
  shows "fcs = map (\<lambda>c. \<lparr>p = real (length (member_indices (cluster_choices s) c))
                              / real (length (clients s)), cid = int c\<rparr>) [0..<cluster_count s]
    \<and> length cms = cluster_count s
    \<and> (\<forall>c < cluster_count s.
          merge_members mergeModels models (clients s) (member_indices (cluster_choices s) c) 0
            (model s) = Inr (cms ! c))"
proof -
  from assms obtain cnt where
    b: "build_clusters mergeModels models s [0..<cluster_count s] ([], []) = Inr (cnt, cms)"
    and f: "fake_clients (length (clients s)) (enumerate 0 cnt) = Inr fcs"
    by (auto simp: external_input_def split: sum.splits prod.splits)
  from build_clusters_spec [OF b] have
    cnt: "cnt = map (\<lambda>c. length (member_indices (cluster_choices s) c)) [0..<cluster_count s]"
    and len: "length cms = cluster_count s"
    and mem: "\<forall>k < cluster_count s.
         merge_members mergeModels models (clients s) (member_indices (cluster_choices s) k) 0
           (model s) = Inr (cms ! k)"
    by simp_all
  have "enumerate 0 cnt = map (\<lambda>c. (c, length (member_indices (cluster_choices s) c))) [0..<cluster_count s]"
    unfolding cnt by (simp add: enumerate_eq_zip zip_map2 map_nth zip_same_conv_map)
  with fake_clients_spec [OF f] have
    "fcs = map (\<lambda>c. \<lparr>p = real (length (member_indices (cluster_choices s) c))
                              / real (length (clients s)), cid = int c\<rparr>) [0..<cluster_count s]"
    by (simp add: comp_def)
  with len mem show ?thesis by simp
qed

lemma external_input_two_clients:
  "external_input weighted_merge [(1, [(''w'', [4])]), (2, [(''w'', [8])])]
     (gw_init two_clients [(''w'', [10])])
   = Inr ([\<lparr>p = 1, cid = 0\<rparr>, \<lparr>p = 0, cid = 1\<rparr>, \<lparr>p = 0, cid = 2\<rparr>],
          [[(''w'', [4])], [(''w'', [10])], [(''w'', [10])]])"
  by (simp add: external_input_def ev3 upt_3 member_indices_def py_getitem_def py_index_def
      weighted_merge_def)

text \<open>
  Claim C5, as amended. The external strategy is invoked over one (weight, model) pair
  for every cluster index below \<^verbatim>\<open>cluster_count\<close>, in index order, empty clusters
  included: the pair of cluster \<open>c\<close> has id \<open>c\<close>, weight member count over client count,
  and the model merged from the member list; an empty cluster contributes weight 0 and an
  untouched copy of the current global model. The new global model is what the strategy
  returns on these lists.
\<close>

theorem external_gets_every_cluster:
  assumes "external_input mergeModels models s = Inr (fcs, cms)"
    and "c < cluster_count s"
  shows "length fcs = cluster_count s \<and> length cms = cluster_count s
    \<and> cid (fcs ! c) = int c
    \<and> p (fcs ! c) = real (length (member_indices (cluster_choices s) c)) / real (length (clients s))
    \<and> merge_members mergeModels models (clients s) (member_indices (cluster_choices s) c) 0 (model s)
        = Inr (cms ! c)
    \<and> (member_indices (cluster_choices s) c = [] \<longrightarrow> p (fcs ! c) = 0 \<and> cms ! c = model s)
    \<and> aggregate_clusters external mergeModels models s =
        (case external fcs cms of Inl e \<Rightarrow> Inl e | Inr m \<Rightarrow> Inr (s\<lparr>model := m\<rparr>))"
proof -
  from external_input_spec [OF assms(1)] have
    f: "fcs = map (\<lambda>c. \<lparr>p = real (length (member_indices (cluster_choices s) c))
                              / real (length (clients s)), cid = int c\<rparr>) [0..<cluster_count s]"
    and l: "length cms = cluster_count s"
    and m: "\<forall>c < cluster_count s.
          merge_members mergeModels models (clients s) (member_indices (cluster_choices s) c) 0
            (model s) = Inr (cms ! c)"
    by blast+
  from m assms(2) have mc:
    "merge_members mergeModels models (clients s) (member_indices (cluster_choices s) c) 0 (model s)
        = Inr (cms ! c)" by blast
  have lf: "length fcs = cluster_count s" using f by simp
  have fc: "fcs ! c = \<lparr>p = real (length (member_indices (cluster_choices s) c))
                              / real (length (clients s)), cid = int c\<rparr>"
    using f assms(2) by simp
  have e: "p (fcs ! c) = 0 \<and> cms ! c = model s" if "member_indices (cluster_choices s) c = []"
    using mc fc that by simp
  have a: "aggregate_clusters external mergeModels models s =
        (case external fcs cms of Inl e \<Rightarrow> Inl e | Inr m \<Rightarrow> Inr (s\<lparr>model := m\<rparr>))"
    using assms(1) by (simp add: aggregate_clusters_def)
  show ?thesis using lf l fc mc e a by simp
qed

theorem external_gets_every_cluster_witness:
  "external_input weighted_merge [(1, [(''w'', [4])]), (2, [(''w'', [8])])]
     (gw_init two_clients [(''w'', [10])])
   = Inr ([\<lparr>p = 1, cid = 0\<rparr>, \<lparr>p = 0, cid = 1\<rparr>, \<lparr>p = 0, cid = 2\<rparr>],
          [[(''w'', [4])], [(''w'', [10])], [(''w'', [10])]])
   \<and> (1::nat) < cluster_count (gw_init two_clients [(''w'', [10])])
   \<and> member_indices (cluster_choices (gw_init two_clients [(''w'', [10])])) 1 = []
   \<and> p ([\<lparr>p = 1, cid = 0\<rparr>, \<lparr>p = 0, cid = 1\<rparr>, \<lparr>p = 0, cid = 2\<rparr>] ! 1) = 0
   \<and> [[(''w'', [4])], [(''w'', [10])], [(''w'', [10])]] ! 1 = model (gw_init two_clients [(''w'', [10])])"
proof -
  have k: "(1::nat) < cluster_count (gw_init two_clients [(''w'', [10])])"
    by (simp add: gw_init_def)
  have e: "member_indices (cluster_choices (gw_init two_clients [(''w'', [10])])) 1 = []"
    by (simp add: gw_init_def two_clients_def member_indices_def)
  from external_gets_every_cluster [OF external_input_two_clients k] e k external_input_two_clients
  show ?thesis by simp
qed

text \<open>
  The claim as stated fails: with two clients and three clusters the external strategy
  receives three pairs, in the state the constructor builds (one cluster with members)
  and also when the two clients sit in two clusters; the pairs of the empty clusters
  carry weight 0 and the global model.
\<close>

theorem external_gets_empty_clusters_counterexample:
  "external_input weighted_merge [(1, [(''w'', [4])]), (2, [(''w'', [8])])]
     (gw_init two_clients [(''w'', [10])])
   = Inr ([\<lparr>p = 1, cid = 0\<rparr>, \<lparr>p = 0, cid = 1\<rparr>, \<lparr>p = 0, cid = 2\<rparr>],
          [[(''w'', [4])], [(''w'', [10])], [(''w'', [10])]])
   \<and> external_input weighted_merge [(1, [(''w'', [4])]), (2, [(''w'', [8])])]
     ((gw_init two_clients [(''w'', [10])])\<lparr>cluster_choices := [0, 1]\<rparr>)
   = Inr ([\<lparr>p = 1 / 2, cid = 0\<rparr>, \<lparr>p = 1 / 2, cid = 1\<rparr>, \<lparr>p = 0, cid = 2\<rparr>],
          [[(''w'', [2])], [(''w'', [4])], [(''w'', [10])]])"
  by (simp add: external_input_def ev3 upt_3 member_indices_def py_getitem_def py_index_def
      weighted_merge_def)

section \<open>Cluster weights over the rounds\<close>








end
